theory Spec2Isabelle
  imports Complex_Main
begin

section \<open>JavaScript numbers\<close>

text \<open>
  Every number of \<^verbatim>\<open>src/reports/GreenFinDashboard.jsx\<close> is a JavaScript Number.
  The model keeps the three special values the code can observe (\<open>NaN\<close> from
  \<^verbatim>\<open>parseFloat\<close> and from \<open>0 / 0\<close>, the two infinities) and takes the finite values
  as exact reals: rounding, overflow to infinity and the sign of zero are not modelled.
  The arithmetic and the comparisons below follow the language's rules on these values:
  \<open>NaN\<close> is absorbing, every comparison with \<open>NaN\<close> is false, \<open>\<infinity> - \<infinity>\<close>,
  \<open>0 \<times> \<infinity>\<close>, \<open>\<infinity> / \<infinity>\<close> and \<open>0 / 0\<close> are \<open>NaN\<close>, and a nonzero finite number divided
  by zero is an infinity.
\<close>

datatype jsnum = NaN | NegInf | Fin real | PosInf

fun isNaN :: "jsnum \<Rightarrow> bool" where
  "isNaN NaN = True"
| "isNaN _ = False"

fun js_neg :: "jsnum \<Rightarrow> jsnum" where
  "js_neg NaN = NaN"
| "js_neg NegInf = PosInf"
| "js_neg (Fin x) = Fin (- x)"
| "js_neg PosInf = NegInf"

fun js_add :: "jsnum \<Rightarrow> jsnum \<Rightarrow> jsnum" where
  "js_add NaN _ = NaN"
| "js_add _ NaN = NaN"
| "js_add (Fin x) (Fin y) = Fin (x + y)"
| "js_add PosInf NegInf = NaN"
| "js_add NegInf PosInf = NaN"
| "js_add PosInf _ = PosInf"
| "js_add _ PosInf = PosInf"
| "js_add NegInf _ = NegInf"
| "js_add _ NegInf = NegInf"

definition js_sub :: "jsnum \<Rightarrow> jsnum \<Rightarrow> jsnum" where
  "js_sub a b = js_add a (js_neg b)"

text \<open>The infinity of the given sign (\<open>True\<close> for positive).\<close>

definition inf_of_sign :: "bool \<Rightarrow> jsnum" where
  "inf_of_sign positive = (if positive then PosInf else NegInf)"

fun js_mul :: "jsnum \<Rightarrow> jsnum \<Rightarrow> jsnum" where
  "js_mul NaN _ = NaN"
| "js_mul _ NaN = NaN"
| "js_mul (Fin x) (Fin y) = Fin (x * y)"
| "js_mul (Fin x) PosInf = (if x = 0 then NaN else inf_of_sign (0 < x))"
| "js_mul (Fin x) NegInf = (if x = 0 then NaN else inf_of_sign (x < 0))"
| "js_mul PosInf (Fin y) = (if y = 0 then NaN else inf_of_sign (0 < y))"
| "js_mul NegInf (Fin y) = (if y = 0 then NaN else inf_of_sign (y < 0))"
| "js_mul PosInf PosInf = PosInf"
| "js_mul NegInf NegInf = PosInf"
| "js_mul PosInf NegInf = NegInf"
| "js_mul NegInf PosInf = NegInf"

fun js_div :: "jsnum \<Rightarrow> jsnum \<Rightarrow> jsnum" where
  "js_div NaN _ = NaN"
| "js_div _ NaN = NaN"
| "js_div (Fin x) (Fin y) =
     (if y = 0 then (if x = 0 then NaN else inf_of_sign (0 < x)) else Fin (x / y))"
| "js_div (Fin x) PosInf = Fin 0"
| "js_div (Fin x) NegInf = Fin 0"
| "js_div PosInf (Fin y) = inf_of_sign (0 \<le> y)"
| "js_div NegInf (Fin y) = inf_of_sign (y < 0)"
| "js_div PosInf PosInf = NaN"
| "js_div PosInf NegInf = NaN"
| "js_div NegInf PosInf = NaN"
| "js_div NegInf NegInf = NaN"

fun js_lt :: "jsnum \<Rightarrow> jsnum \<Rightarrow> bool" where
  "js_lt NaN _ = False"
| "js_lt _ NaN = False"
| "js_lt (Fin x) (Fin y) = (x < y)"
| "js_lt PosInf _ = False"
| "js_lt _ PosInf = True"
| "js_lt _ NegInf = False"
| "js_lt NegInf _ = True"

fun js_le :: "jsnum \<Rightarrow> jsnum \<Rightarrow> bool" where
  "js_le NaN _ = False"
| "js_le _ NaN = False"
| "js_le (Fin x) (Fin y) = (x \<le> y)"
| "js_le NegInf _ = True"
| "js_le _ PosInf = True"
| "js_le PosInf _ = False"
| "js_le _ NegInf = False"

definition js_gt :: "jsnum \<Rightarrow> jsnum \<Rightarrow> bool" where
  "js_gt a b = js_lt b a"

text \<open>\<^verbatim>\<open>Math.max(a, b)\<close> and \<^verbatim>\<open>Math.min(a, b)\<close>: \<open>NaN\<close> when an argument is \<open>NaN\<close>.\<close>

definition Math_max :: "jsnum \<Rightarrow> jsnum \<Rightarrow> jsnum" where
  "Math_max a b = (if isNaN a \<or> isNaN b then NaN else if js_lt a b then b else a)"

definition Math_min :: "jsnum \<Rightarrow> jsnum \<Rightarrow> jsnum" where
  "Math_min a b = (if isNaN a \<or> isNaN b then NaN else if js_lt b a then b else a)"

text \<open>\<^verbatim>\<open>s.startsWith(p)\<close>.\<close>

definition startsWith :: "string \<Rightarrow> string \<Rightarrow> bool" where
  "startsWith s p = (take (length p) s = p)"

section \<open>The portfolio document\<close>

text \<open>
  A bucket is an element of \<^verbatim>\<open>riskData\<close> (the shape of the entries of \<^verbatim>\<open>MOCK_DATA\<close>):
  the tier is a string and the exposure and the percentage are numbers, as in every
  document this code writes. The code reads \<^verbatim>\<open>count\<close> as \<^verbatim>\<open>b.count || 0\<close>, so that
  field may be absent: \<open>None\<close>.
\<close>

record bucket =
  tier :: string
  exposure :: jsnum
  percentage :: jsnum
  color :: string
  count :: "jsnum option"

type_synonym timestamp = string

text \<open>The \<^verbatim>\<open>lastAction\<close> object written by a divestment.\<close>

record action =
  action_type :: string
  action_amount :: jsnum
  action_timestamp :: timestamp
  action_user :: string

text \<open>The document \<^verbatim>\<open>portfolio_summary\<close>, held by the component as \<^verbatim>\<open>dbData\<close>.\<close>

record snapshot =
  totalExposure :: jsnum
  initialTierDTarget :: jsnum
  lastUpdated :: timestamp
  riskData :: "bucket list"
  lastAction :: "action option"

definition MOCK_DATA :: "bucket list" where
  "MOCK_DATA =
    [\<lparr>tier = ''A: Leader (Low Risk)'', exposure = Fin 9933.22, percentage = Fin 3.57,
       color = ''#10B981'', count = Some (Fin 34)\<rparr>,
     \<lparr>tier = ''B: Aligned (Moderate Risk)'', exposure = Fin 86354.51, percentage = Fin 31.05,
       color = ''#3B82F6'', count = Some (Fin 313)\<rparr>,
     \<lparr>tier = ''C: Watchlist (High Risk)'', exposure = Fin 129817.65, percentage = Fin 46.67,
       color = ''#F59E0B'', count = Some (Fin 459)\<rparr>,
     \<lparr>tier = ''D: Divestment (Very High Risk)'', exposure = Fin 52052.43, percentage = Fin 18.71,
       color = ''#EF4444'', count = Some (Fin 194)\<rparr>]"

definition TOTAL_EXPOSURE :: jsnum where
  "TOTAL_EXPOSURE = Fin 278157.81"

definition TIER_D_TARGET_EXPOSURE :: jsnum where
  "TIER_D_TARGET_EXPOSURE = Fin 52052.43"

text \<open>
  \<^verbatim>\<open>x || y\<close> on an optional number: \<open>y\<close> when \<open>x\<close> is absent, \<open>NaN\<close> or zero (the falsy
  numbers), \<open>x\<close> otherwise.
\<close>

definition js_or :: "jsnum option \<Rightarrow> jsnum \<Rightarrow> jsnum" where
  "js_or x y = (case x of None \<Rightarrow> y | Some v \<Rightarrow> if isNaN v \<or> v = Fin 0 then y else v)"

text \<open>
  The document \<^verbatim>\<open>initializeData\<close> writes (lines 265-276), at the clock reading \<open>now\<close>:
  the documented starting snapshot.
\<close>

definition initialRiskData :: "bucket list" where
  "initialRiskData =
     map (\<lambda>d. d\<lparr>count := Some (js_or (count d)
            (if startsWith (tier d) ''A'' then Fin 34
             else if startsWith (tier d) ''B'' then Fin 313
             else if startsWith (tier d) ''C'' then Fin 459 else Fin 194))\<rparr>) MOCK_DATA"

definition initialDocument :: "timestamp \<Rightarrow> snapshot" where
  "initialDocument now =
     \<lparr>totalExposure = TOTAL_EXPOSURE,
      initialTierDTarget = TIER_D_TARGET_EXPOSURE,
      lastUpdated = now,
      riskData = initialRiskData,
      lastAction = None\<rparr>"

section \<open>The divestment handler\<close>

text \<open>
  The three messages \<^verbatim>\<open>setError\<close> is called with, under the names the specification
  gives them: \<open>InvalidAmount\<close> is "Please enter a valid positive number for divestment.",
  \<open>AmountExceedsExposure amount ceiling\<close> is "Divestment amount ($amount Mn) exceeds
  remaining Tier D exposure ($ceiling Mn).", \<open>PersistenceFailure\<close> is "Failed to update
  portfolio data in Firestore.".
\<close>

datatype error = InvalidAmount | AmountExceedsExposure jsnum jsnum | PersistenceFailure

text \<open>
  The state of \<^verbatim>\<open>DivestmentSimulator\<close> the handler sets: \<open>error = None\<close> is the empty
  message.
\<close>

record simulator =
  error :: "error option"
  isUpdating :: bool

text \<open>
  The clock: \<open>now k\<close> is what the \<open>k\<close>-th evaluation of
  \<^verbatim>\<open>new Date().toISOString()\<close> in one call of the handler returns.
\<close>

type_synonym clock = "nat \<Rightarrow> timestamp"

text \<open>The callback of the first \<^verbatim>\<open>map\<close> (lines 103-119).\<close>

definition updateBucket :: "jsnum \<Rightarrow> jsnum \<Rightarrow> bucket \<Rightarrow> bucket" where
  "updateBucket newTierDExposure newTierDPercentage d =
     (if startsWith (tier d) ''D'' then
        d\<lparr>exposure := newTierDExposure, percentage := newTierDPercentage\<rparr>
      else if startsWith (tier d) ''C'' \<and> js_le newTierDExposure (Fin 0) then
        \<lparr>tier = tier d, exposure = exposure d, percentage = percentage d,
         color = color d, count = count d\<rparr>
      else d)"

text \<open>\<^verbatim>\<open>updatedRiskData.reduce((sum, d) => sum + d.exposure, 0)\<close> (line 122).\<close>

definition recalculateTotal :: "bucket list \<Rightarrow> jsnum" where
  "recalculateTotal updatedRiskData =
     foldl (\<lambda>sum d. js_add sum (exposure d)) (Fin 0) updatedRiskData"

text \<open>
  Lines 97-139: the document passed to \<^verbatim>\<open>setDoc\<close>. The spread of \<^verbatim>\<open>dbData\<close> keeps
  \<^verbatim>\<open>totalExposure\<close> and \<^verbatim>\<open>initialTierDTarget\<close>.
\<close>

definition newDocument :: "clock \<Rightarrow> snapshot \<Rightarrow> string \<Rightarrow> jsnum \<Rightarrow> jsnum \<Rightarrow> snapshot" where
  "newDocument now dbData userId amount currentTierDExposure =
     (let newTierDExposure = js_sub currentTierDExposure amount;
          newTierDPercentage = js_mul (js_div newTierDExposure TOTAL_EXPOSURE) (Fin 100);
          updatedRiskData = map (updateBucket newTierDExposure newTierDPercentage) (riskData dbData);
          total = recalculateTotal updatedRiskData;
          finalRiskData =
            map (\<lambda>d. d\<lparr>percentage := js_mul (js_div (exposure d) total) (Fin 100)\<rparr>)
              updatedRiskData
      in dbData\<lparr>riskData := finalRiskData,
                lastUpdated := now 0,
                lastAction := Some \<lparr>action_type = ''Divestment'', action_amount = amount,
                                     action_timestamp = now 1, action_user = userId\<rparr>\<rparr>)"

text \<open>
  \<^verbatim>\<open>handleSimulateDivestment\<close> (lines 77-150). \<open>amount\<close> is what \<^verbatim>\<open>parseFloat\<close>
  returned for the text of the input field; \<open>setDoc_resolves\<close> says whether the promise of
  \<^verbatim>\<open>setDoc\<close> resolves (\<open>False\<close>: it rejects, and the \<^verbatim>\<open>catch\<close> block runs). The
  result is the new state of the component and the document \<^verbatim>\<open>setDoc\<close> was called
  with, \<open>None\<close> when the handler returned before calling it. The text of the input field,
  which a resolved write clears, is not part of the state.
\<close>

definition handleSimulateDivestment ::
  "bool \<Rightarrow> clock \<Rightarrow> snapshot \<Rightarrow> string \<Rightarrow> jsnum \<Rightarrow> simulator \<Rightarrow> simulator \<times> snapshot option" where
  "handleSimulateDivestment setDoc_resolves now dbData userId amount st =
     (let st = st\<lparr>error := None\<rparr> in
      if isNaN amount \<or> js_le amount (Fin 0) then
        (st\<lparr>error := Some InvalidAmount\<rparr>, None)
      else
        let currentTierD = find (\<lambda>d. startsWith (tier d) ''D'') (riskData dbData);
            currentTierDExposure =
              (case currentTierD of Some d \<Rightarrow> exposure d | None \<Rightarrow> Fin 0)
        in
          if js_gt amount currentTierDExposure then
            (st\<lparr>error := Some (AmountExceedsExposure amount currentTierDExposure)\<rparr>, None)
          else
            let st = st\<lparr>isUpdating := True\<rparr>;
                document = newDocument now dbData userId amount currentTierDExposure
            in if setDoc_resolves then (st\<lparr>isUpdating := False\<rparr>, Some document)
               else (st\<lparr>error := Some PersistenceFailure, isUpdating := False\<rparr>, Some document))"

section \<open>Derived metrics\<close>

record metrics =
  currentTierDExposure :: jsnum
  progressMade :: jsnum
  progressPercentage :: jsnum
  highRiskExposure :: jsnum
  totalLoanCount :: jsnum

text \<open>
  \<^verbatim>\<open>calculatedMetrics\<close> (lines 303-329). \<open>None\<close> for \<^verbatim>\<open>dbData\<close> is the state before
  the first document arrives; the result \<open>None\<close> is the empty object.
\<close>

definition calculatedMetrics :: "snapshot option \<Rightarrow> metrics option" where
  "calculatedMetrics dbData_opt =
     (case dbData_opt of
        None \<Rightarrow> None
      | Some dbData \<Rightarrow>
          let currentTierD = find (\<lambda>d. startsWith (tier d) ''D'') (riskData dbData);
              currentTierDExposure =
                (case currentTierD of Some d \<Rightarrow> exposure d | None \<Rightarrow> Fin 0);
              totalTarget = initialTierDTarget dbData;
              progressMade = Math_max (Fin 0) (js_sub totalTarget currentTierDExposure);
              progressPercentage =
                (if js_gt totalTarget (Fin 0)
                 then js_mul (js_div progressMade totalTarget) (Fin 100) else Fin 0);
              tierC = find (\<lambda>d. startsWith (tier d) ''C'') (riskData dbData);
              highRiskExposure =
                js_add currentTierDExposure
                  (case tierC of Some c \<Rightarrow> exposure c | None \<Rightarrow> Fin 0);
              totalLoanCount =
                foldl (\<lambda>a b. js_add a (js_or (count b) (Fin 0))) (Fin 0) (riskData dbData)
          in Some \<lparr>currentTierDExposure = currentTierDExposure,
                   progressMade = progressMade,
                   progressPercentage = Math_min (Fin 100) progressPercentage,
                   highRiskExposure = highRiskExposure,
                   totalLoanCount = totalLoanCount\<rparr>)"

section \<open>The bucket update without its Tier-C branch\<close>

text \<open>
  The callback of the bucket update with the Tier-C branch removed: only a bucket whose
  tier starts with \<open>D\<close> is changed.
\<close>

definition updateBucket_D_only :: "jsnum \<Rightarrow> jsnum \<Rightarrow> bucket \<Rightarrow> bucket" where
  "updateBucket_D_only newTierDExposure newTierDPercentage d =
     (if startsWith (tier d) ''D'' then
        d\<lparr>exposure := newTierDExposure, percentage := newTierDPercentage\<rparr>
      else d)"

section \<open>Notions the properties are stated with\<close>

text \<open>
  The exposure of the first bucket whose tier starts with the given letter, and zero when
  there is none: what lines 86-87 and 306-307 compute for \<open>D\<close> and lines 315-316 for
  \<open>C\<close>.
\<close>

definition tier_exposure :: "string \<Rightarrow> bucket list \<Rightarrow> jsnum" where
  "tier_exposure letter rd =
     (case find (\<lambda>d. startsWith (tier d) letter) rd of
        Some d \<Rightarrow> exposure d
      | None \<Rightarrow> Fin 0)"

text \<open>The sum of a list of numbers, and the sum of the buckets' counts (an absent count is zero).\<close>

primrec js_sum :: "jsnum list \<Rightarrow> jsnum" where
  "js_sum [] = Fin 0"
| "js_sum (x # xs) = js_add x (js_sum xs)"

definition sum_counts :: "bucket list \<Rightarrow> jsnum" where
  "sum_counts rd = js_sum (map (\<lambda>b. js_or (count b) (Fin 0)) rd)"

text \<open>A number within \<open>eps\<close> of \<open>target\<close>: never true of \<open>NaN\<close> or of an infinity.\<close>

definition close_to :: "real \<Rightarrow> real \<Rightarrow> jsnum \<Rightarrow> bool" where
  "close_to eps target v = (case v of Fin x \<Rightarrow> abs (x - target) \<le> eps | _ \<Rightarrow> False)"

text \<open>
  Concrete inputs: a state of the component, a clock, the documented starting snapshot and
  a portfolio held in Tier D alone.
\<close>

definition idle :: simulator where
  "idle = \<lparr>error = None, isUpdating = False\<rparr>"

definition clock0 :: clock where
  "clock0 k = (if k = 0 then ''2024-01-01T00:00:00.000Z'' else ''2024-01-01T00:00:00.001Z'')"

definition documented :: snapshot where
  "documented = initialDocument ''2024-01-01T00:00:00.000Z''"

definition tierD_only_portfolio :: snapshot where
  "tierD_only_portfolio =
     \<lparr>totalExposure = Fin 5,
      initialTierDTarget = Fin 5,
      lastUpdated = ''2024-01-01T00:00:00.000Z'',
      riskData =
        [\<lparr>tier = ''A: Leader (Low Risk)'', exposure = Fin 0, percentage = Fin 0,
           color = ''#10B981'', count = Some (Fin 0)\<rparr>,
         \<lparr>tier = ''B: Aligned (Moderate Risk)'', exposure = Fin 0, percentage = Fin 0,
           color = ''#3B82F6'', count = Some (Fin 0)\<rparr>,
         \<lparr>tier = ''C: Watchlist (High Risk)'', exposure = Fin 0, percentage = Fin 0,
           color = ''#F59E0B'', count = Some (Fin 0)\<rparr>,
         \<lparr>tier = ''D: Divestment (Very High Risk)'', exposure = Fin 5, percentage = Fin 100,
           color = ''#EF4444'', count = Some (Fin 1)\<rparr>],
      lastAction = None\<rparr>"

section \<open>Numbers: facts used below\<close>

lemma positive_passes_first_check:
  "js_lt (Fin 0) amount \<Longrightarrow> \<not> (isNaN amount \<or> js_le amount (Fin 0))"
  by (cases amount) simp_all

lemma js_le_not_gt: "js_le a b \<Longrightarrow> \<not> js_gt a b"
  by (cases a; cases b) (simp_all add: js_gt_def)

lemma js_gt_above_nonneg: "js_gt a b \<Longrightarrow> js_le (Fin 0) b \<Longrightarrow> js_lt (Fin 0) a"
  by (cases a; cases b) (simp_all add: js_gt_def)

lemma js_add_assoc: "js_add (js_add a b) c = js_add a (js_add b c)"
  by (cases a; cases b; cases c) simp_all

lemma js_add_zero_right: "js_add a (Fin 0) = a"
  by (cases a) simp_all

lemma js_add_zero_left: "js_add (Fin 0) a = a"
  by (cases a) simp_all

lemma js_add_Fin_iff: "js_add a b = Fin z \<longleftrightarrow> (\<exists>x y. a = Fin x \<and> b = Fin y \<and> z = x + y)"
  by (cases a; cases b) auto

text \<open>A left fold of additions is the sum of the list, added to the start value.\<close>

lemma foldl_js_sum:
  "foldl (\<lambda>a b. js_add a (g b)) z xs = js_add z (js_sum (map g xs))"
  by (induction xs arbitrary: z) (simp_all add: js_add_zero_right js_add_assoc)

text \<open>A fold of additions that ends finite started finite and met finite numbers only.\<close>

lemma foldl_js_add_Fin:
  "foldl js_add a es = Fin t \<Longrightarrow> \<exists>a' rs. a = Fin a' \<and> es = map Fin rs \<and> t = a' + sum_list rs"
proof (induction es arbitrary: a)
  case Nil
  then show ?case by simp
next
  case (Cons e es)
  then have "foldl js_add (js_add a e) es = Fin t" by simp
  from Cons.IH [OF this] obtain a'' rs where
    h: "js_add a e = Fin a''" "es = map Fin rs" "t = a'' + sum_list rs" by blast
  from h(1) obtain x y where xy: "a = Fin x" "e = Fin y" "a'' = x + y"
    by (auto simp: js_add_Fin_iff)
  have "e # es = map Fin (y # rs)" using xy h(2) by simp
  moreover have "t = x + sum_list (y # rs)" using xy h(3) by simp
  ultimately show ?case using xy(1) by (intro exI conjI)
qed

lemma foldl_js_add_map_Fin: "foldl js_add (Fin a) (map Fin rs) = Fin (a + sum_list rs)"
  by (induction rs arbitrary: a) (simp_all add: add.assoc)

lemma js_sum_map_Fin: "js_sum (map Fin rs) = Fin (sum_list rs)"
  by (induction rs) simp_all

lemma percent_sum_real:
  "t \<noteq> 0 \<Longrightarrow> sum_list (map (\<lambda>r. r / t * 100) rs) = sum_list rs / t * (100::real)"
  by (induction rs) (simp_all add: field_simps)

lemma percentages_sum:
  assumes "foldl js_add (Fin 0) es = Fin t" and "t \<noteq> 0"
  shows "js_sum (map (\<lambda>e. js_mul (js_div e (Fin t)) (Fin 100)) es) = Fin 100"
proof -
  from foldl_js_add_Fin [OF assms(1)] obtain rs where rs: "es = map Fin rs" "t = sum_list rs"
    by auto
  have "map (\<lambda>e. js_mul (js_div e (Fin t)) (Fin 100)) es = map Fin (map (\<lambda>r. r / t * 100) rs)"
    using rs(1) assms(2) by simp
  then have a: "js_sum (map (\<lambda>e. js_mul (js_div e (Fin t)) (Fin 100)) es)
               = Fin (sum_list (map (\<lambda>r. r / t * 100) rs))"
    by (simp only: js_sum_map_Fin)
  have b: "sum_list (map (\<lambda>r. r / t * 100) rs) = sum_list rs / t * 100"
    by (rule percent_sum_real [OF assms(2)])
  have c: "sum_list rs / t * 100 = 100" using rs(2) assms(2) by simp
  show ?thesis by (simp only: a b c)
qed

text \<open>Replacing the value of the one element that satisfies \<open>P\<close>.\<close>

lemma map_if_none:
  "filter P xs = [] \<Longrightarrow> map (\<lambda>x. if P x then n else f x) xs = map f xs"
  by (induction xs) (auto split: if_splits)

lemma sum_one_replaced:
  "length (filter P xs) = 1 \<Longrightarrow> find P xs = Some d \<Longrightarrow>
   sum_list (map (\<lambda>x. if P x then n else f x) xs) = sum_list (map f xs) - f d + (n::real)"
proof (induction xs)
  case Nil
  then show ?case by simp
next
  case (Cons x xs)
  show ?case
  proof (cases "P x")
    case True
    with Cons.prems have "filter P xs = []" "d = x" by simp_all
    have "map (\<lambda>x. if P x then n else f x) xs = map f xs"
      by (rule map_if_none) fact
    then have "sum_list (map (\<lambda>x. if P x then n else f x) xs) = sum_list (map f xs)"
      by (simp only:)
    with True \<open>d = x\<close> show ?thesis by simp
  next
    case False
    with Cons show ?thesis by simp
  qed
qed

lemma find_Some_of_filter:
  "length (filter P xs) = 1 \<Longrightarrow> \<exists>d. find P xs = Some d \<and> d \<in> set xs"
  by (induction xs) (auto split: if_splits)

section \<open>The handler: its three outcomes\<close>

lemma error_update_eq:
  "(st\<lparr>error := a\<rparr> = st\<lparr>error := b\<rparr>) = (a = b)" for st :: simulator
  by (cases st) simp

lemma handle_exceeds:
  "js_lt (Fin 0) amount \<Longrightarrow> js_gt amount (tier_exposure ''D'' (riskData dbData)) \<Longrightarrow>
   handleSimulateDivestment ok now dbData userId amount st
     = (st\<lparr>error := Some (AmountExceedsExposure amount (tier_exposure ''D'' (riskData dbData)))\<rparr>,
        None)"
  using positive_passes_first_check [of amount]
  by (simp add: handleSimulateDivestment_def tier_exposure_def Let_def)

lemma handle_writes:
  "js_lt (Fin 0) amount \<Longrightarrow> \<not> js_gt amount (tier_exposure ''D'' (riskData dbData)) \<Longrightarrow>
   handleSimulateDivestment ok now dbData userId amount st
     = (st\<lparr>error := (if ok then None else Some PersistenceFailure), isUpdating := False\<rparr>,
        Some (newDocument now dbData userId amount (tier_exposure ''D'' (riskData dbData))))"
  using positive_passes_first_check [of amount]
  by (simp add: handleSimulateDivestment_def tier_exposure_def Let_def)

lemma handle_Some:
  assumes "handleSimulateDivestment ok now dbData userId amount st = (st', Some doc)"
  shows "doc = newDocument now dbData userId amount (tier_exposure ''D'' (riskData dbData))"
  using assms
  by (auto simp: handleSimulateDivestment_def tier_exposure_def Let_def split: if_splits)

lemma no_tierD_zero:
  "find (\<lambda>d. startsWith (tier d) l) rd = None \<Longrightarrow> tier_exposure l rd = Fin 0"
  by (simp add: tier_exposure_def)

section \<open>The written document\<close>

lemma exposure_updateBucket:
  "exposure (updateBucket e p d) = (if startsWith (tier d) ''D'' then e else exposure d)"
  by (simp add: updateBucket_def)

lemma tier_updateBucket: "tier (updateBucket e p d) = tier d"
  by (simp add: updateBucket_def)

lemma recalculateTotal_exposures:
  "recalculateTotal xs = foldl js_add (Fin 0) (map exposure xs)"
  by (simp add: recalculateTotal_def foldl_map)

lemma riskData_newDocument:
  "riskData (newDocument now dbData userId amount cur) =
     map (\<lambda>d. (updateBucket (js_sub cur amount)
                  (js_mul (js_div (js_sub cur amount) TOTAL_EXPOSURE) (Fin 100)) d)
             \<lparr>percentage :=
                js_mul (js_div
                  (exposure (updateBucket (js_sub cur amount)
                     (js_mul (js_div (js_sub cur amount) TOTAL_EXPOSURE) (Fin 100)) d))
                  (recalculateTotal
                     (map (updateBucket (js_sub cur amount)
                        (js_mul (js_div (js_sub cur amount) TOTAL_EXPOSURE) (Fin 100)))
                        (riskData dbData)))) (Fin 100)\<rparr>)
       (riskData dbData)"
  by (simp add: newDocument_def Let_def)

lemma map_exposure_newDocument:
  "map exposure (riskData (newDocument now dbData userId amount cur)) =
     map (\<lambda>d. if startsWith (tier d) ''D'' then js_sub cur amount else exposure d)
       (riskData dbData)"
  by (simp add: riskData_newDocument exposure_updateBucket)

lemma map_tier_newDocument:
  "map tier (riskData (newDocument now dbData userId amount cur)) = map tier (riskData dbData)"
  by (simp add: riskData_newDocument tier_updateBucket)

lemma percentage_newDocument:
  "map percentage (riskData (newDocument now dbData userId amount cur))
     = map (\<lambda>d. js_mul (js_div (exposure d)
              (recalculateTotal (riskData (newDocument now dbData userId amount cur)))) (Fin 100))
         (riskData (newDocument now dbData userId amount cur))"
  by (simp add: riskData_newDocument recalculateTotal_exposures o_def)

text \<open>
  The exposure found for a letter in a list whose tiers are those of \<open>xs\<close> and whose
  exposures are \<open>e\<close> at that letter's buckets.
\<close>

lemma tier_exposure_map:
  assumes "map tier ys = map tier xs"
    and "map exposure ys = map (\<lambda>d. if startsWith (tier d) l then e else exposure d) xs"
  shows "tier_exposure l ys
           = (case find (\<lambda>d. startsWith (tier d) l) xs of Some d \<Rightarrow> e | None \<Rightarrow> Fin 0)"
  using assms
proof (induction xs arbitrary: ys)
  case Nil
  then show ?case by (simp add: tier_exposure_def)
next
  case (Cons x xs)
  then obtain y ys' where ys: "ys = y # ys'" by (cases ys) auto
  with Cons.prems have h: "tier y = tier x" "map tier ys' = map tier xs"
    "exposure y = (if startsWith (tier x) l then e else exposure x)"
    "map exposure ys' = map (\<lambda>d. if startsWith (tier d) l then e else exposure d) xs"
    by simp_all
  from Cons.IH [OF h(2) h(4)] h(1) h(3) ys show ?case
    by (simp add: tier_exposure_def)
qed

text \<open>When the sum of the exposures is finite, every exposure is.\<close>

lemma exposures_finite:
  assumes "recalculateTotal xs = Fin T"
  shows "map exposure xs = map (\<lambda>d. Fin (case exposure d of Fin x \<Rightarrow> x | _ \<Rightarrow> 0)) xs"
    and "T = sum_list (map (\<lambda>d. case exposure d of Fin x \<Rightarrow> x | _ \<Rightarrow> 0) xs)"
proof -
  from assms have "foldl js_add (Fin 0) (map exposure xs) = Fin T"
    by (simp add: recalculateTotal_exposures)
  from foldl_js_add_Fin [OF this] obtain rs
    where rs: "map exposure xs = map Fin rs" "T = sum_list rs"
    by auto
  have *: "map exposure xs = map Fin rs \<Longrightarrow>
        map (\<lambda>d. case exposure d of Fin x \<Rightarrow> x | _ \<Rightarrow> 0) xs = rs" for rs
    by (induction xs arbitrary: rs) auto
  from * [OF rs(1)] rs
  show "map exposure xs = map (\<lambda>d. Fin (case exposure d of Fin x \<Rightarrow> x | _ \<Rightarrow> 0)) xs"
    and "T = sum_list (map (\<lambda>d. case exposure d of Fin x \<Rightarrow> x | _ \<Rightarrow> 0) xs)"
    by (auto simp: map_eq_conv)
qed

lemma total_after_divestment:
  assumes T: "recalculateTotal (riskData dbData) = Fin T"
    and one: "length (filter (\<lambda>d. startsWith (tier d) ''D'') (riskData dbData)) = 1"
  shows "recalculateTotal
           (riskData (newDocument now dbData userId (Fin a) (tier_exposure ''D'' (riskData dbData))))
           = Fin (T - a)"
proof -
  define f where "f = (\<lambda>d::bucket. case exposure d of Fin x \<Rightarrow> x | _ \<Rightarrow> (0::real))"
  let ?xs = "riskData dbData"
  let ?P = "\<lambda>d. startsWith (tier d) ''D''"
  have ex: "map exposure ?xs = map (\<lambda>d. Fin (f d)) ?xs" and sum: "T = sum_list (map f ?xs)"
    using exposures_finite [OF T] by (simp_all only: f_def)
  from find_Some_of_filter [OF one] obtain d where d: "find ?P ?xs = Some d" "d \<in> set ?xs"
    by blast
  have "exposure d = Fin (f d)" using ex d(2) by (simp add: map_eq_conv)
  then have cur: "tier_exposure ''D'' ?xs = Fin (f d)" using d(1) by (simp add: tier_exposure_def)
  have "map exposure (riskData (newDocument now dbData userId (Fin a) (tier_exposure ''D'' ?xs)))
          = map (\<lambda>d'. if ?P d' then Fin (f d - a) else exposure d') ?xs"
    by (simp add: map_exposure_newDocument cur js_sub_def)
  also have "\<dots> = map Fin (map (\<lambda>d'. if ?P d' then f d - a else f d') ?xs)"
    using ex by (auto simp: map_eq_conv)
  finally have "recalculateTotal
                  (riskData (newDocument now dbData userId (Fin a) (tier_exposure ''D'' ?xs)))
          = Fin (0 + sum_list (map (\<lambda>d'. if ?P d' then f d - a else f d') ?xs))"
    by (simp only: recalculateTotal_exposures foldl_js_add_map_Fin)
  also have "sum_list (map (\<lambda>d'. if ?P d' then f d - a else f d') ?xs)
               = sum_list (map f ?xs) - f d + (f d - a)"
    by (rule sum_one_replaced [OF one d(1)])
  finally show ?thesis using sum by simp
qed

section \<open>The documented snapshot\<close>

lemmas doc_defs = handleSimulateDivestment_def newDocument_def documented_def
  initialDocument_def initialRiskData_def MOCK_DATA_def TOTAL_EXPOSURE_def
  TIER_D_TARGET_EXPOSURE_def updateBucket_def recalculateTotal_def js_or_def startsWith_def
  js_gt_def js_sub_def tier_exposure_def Let_def

lemma documented_tierD: "tier_exposure ''D'' (riskData documented) = Fin 52052.43"
  by (simp add: doc_defs)

lemma documented_total: "recalculateTotal (riskData documented) = Fin 278157.81"
  by (simp add: doc_defs)

lemma documented_one_tierD:
  "length (filter (\<lambda>d. startsWith (tier d) ''D'') (riskData documented)) = 1"
  by (simp add: doc_defs)

lemma documented_20000:
  "handleSimulateDivestment True clock0 documented ''user-1'' (Fin 20000) idle
     = (idle\<lparr>error := None, isUpdating := False\<rparr>,
        Some (newDocument clock0 documented ''user-1'' (Fin 20000) (Fin 52052.43)))"
  using handle_writes [of "Fin 20000" documented True clock0 "''user-1''" idle]
  by (simp add: documented_tierD js_gt_def)

section \<open>The properties\<close>

text \<open>
  C1. When \<open>0 < amount\<close> and \<open>amount\<close> is at most the current Tier-D exposure, the
  handler, with a write that resolves, reports no error and writes a document in which
  the Tier-D exposure is the old Tier-D exposure minus \<open>amount\<close>; the buckets keep their
  tiers, every bucket whose tier starts with \<open>D\<close> has that new exposure, and every
  other bucket has the exposure it had.
\<close>

theorem divestment_subtracts_from_tierD_only:
  assumes pos: "js_lt (Fin 0) amount"
    and le: "js_le amount (tier_exposure ''D'' (riskData dbData))"
  shows "\<exists>doc. handleSimulateDivestment True now dbData userId amount st
                 = (st\<lparr>error := None, isUpdating := False\<rparr>, Some doc)
     \<and> tier_exposure ''D'' (riskData doc) = js_sub (tier_exposure ''D'' (riskData dbData)) amount
     \<and> map tier (riskData doc) = map tier (riskData dbData)
     \<and> map exposure (riskData doc)
         = map (\<lambda>d. if startsWith (tier d) ''D''
                     then js_sub (tier_exposure ''D'' (riskData dbData)) amount
                     else exposure d) (riskData dbData)"
proof -
  let ?cur = "tier_exposure ''D'' (riskData dbData)"
  let ?doc = "newDocument now dbData userId amount ?cur"
  have w: "handleSimulateDivestment True now dbData userId amount st
             = (st\<lparr>error := None, isUpdating := False\<rparr>, Some ?doc)"
    using handle_writes [OF pos js_le_not_gt [OF le], of True now userId st] by simp
  have ex: "find (\<lambda>d. startsWith (tier d) ''D'') (riskData dbData) \<noteq> None"
  proof
    assume "find (\<lambda>d. startsWith (tier d) ''D'') (riskData dbData) = None"
    then have "?cur = Fin 0" by (rule no_tierD_zero)
    with pos le show False by (cases amount) simp_all
  qed
  have t: "map tier (riskData ?doc) = map tier (riskData dbData)"
    by (rule map_tier_newDocument)
  have e: "map exposure (riskData ?doc)
         = map (\<lambda>d. if startsWith (tier d) ''D'' then js_sub ?cur amount else exposure d)
             (riskData dbData)"
    by (rule map_exposure_newDocument)
  have "tier_exposure ''D'' (riskData ?doc) = js_sub ?cur amount"
    using tier_exposure_map [OF t e] ex by (auto split: option.splits)
  with w t e show ?thesis by blast
qed

theorem divestment_subtracts_from_tierD_only_witness:
  "\<exists>doc. handleSimulateDivestment True clock0 documented ''user-1'' (Fin 20000) idle
            = (idle\<lparr>error := None, isUpdating := False\<rparr>, Some doc)
     \<and> tier_exposure ''D'' (riskData doc) = Fin 32052.43
     \<and> map exposure (riskData doc)
         = [Fin 9933.22, Fin 86354.51, Fin 129817.65, Fin 32052.43]"
proof -
  have h1: "js_lt (Fin 0) (Fin 20000)" by simp
  have h2: "js_le (Fin 20000) (tier_exposure ''D'' (riskData documented))"
    by (simp add: documented_tierD)
  from divestment_subtracts_from_tierD_only [OF h1 h2, of clock0 "''user-1''" idle]
  obtain doc where
    d: "handleSimulateDivestment True clock0 documented ''user-1'' (Fin 20000) idle
          = (idle\<lparr>error := None, isUpdating := False\<rparr>, Some doc)"
      "tier_exposure ''D'' (riskData doc)
          = js_sub (tier_exposure ''D'' (riskData documented)) (Fin 20000)"
      "map exposure (riskData doc)
         = map (\<lambda>d. if startsWith (tier d) ''D''
                     then js_sub (tier_exposure ''D'' (riskData documented)) (Fin 20000)
                     else exposure d) (riskData documented)"
    by blast
  have "tier_exposure ''D'' (riskData doc) = Fin 32052.43"
    using d(2) by (simp add: documented_tierD js_sub_def)
  moreover have "map exposure (riskData doc)
         = [Fin 9933.22, Fin 86354.51, Fin 129817.65, Fin 32052.43]"
    unfolding d(3) documented_tierD
    by (simp add: documented_def initialDocument_def initialRiskData_def MOCK_DATA_def
        startsWith_def js_sub_def)
  ultimately show ?thesis using d(1) by (intro exI [of _ doc] conjI)
qed

text \<open>
  C2. When \<open>amount\<close> is strictly greater than the current Tier-D exposure (an exposure
  that is not negative, as the data model has it), the handler sets the error
  \<open>AmountExceedsExposure\<close>, which carries the current Tier-D exposure, changes nothing
  else of its state and returns before \<^verbatim>\<open>setDoc\<close> is called; whether a write would
  have resolved plays no part.
\<close>

theorem amount_above_exposure_rejected:
  assumes gt: "js_gt amount (tier_exposure ''D'' (riskData dbData))"
    and nonneg: "js_le (Fin 0) (tier_exposure ''D'' (riskData dbData))"
  shows "handleSimulateDivestment setDoc_resolves now dbData userId amount st
           = (st\<lparr>error := Some (AmountExceedsExposure amount
                                   (tier_exposure ''D'' (riskData dbData)))\<rparr>, None)"
  by (rule handle_exceeds [OF js_gt_above_nonneg [OF gt nonneg] gt])

theorem amount_above_exposure_rejected_witness:
  "handleSimulateDivestment True clock0 documented ''user-1'' (Fin 52052.44) idle
     = (idle\<lparr>error := Some (AmountExceedsExposure (Fin 52052.44) (Fin 52052.43))\<rparr>, None)"
proof -
  have h1: "js_gt (Fin 52052.44) (tier_exposure ''D'' (riskData documented))"
    by (simp add: documented_tierD js_gt_def)
  have h2: "js_le (Fin 0) (tier_exposure ''D'' (riskData documented))"
    by (simp add: documented_tierD)
  show ?thesis
    using amount_above_exposure_rejected [OF h1 h2, of True clock0 "''user-1''" idle]
    by (simp add: documented_tierD)
qed

text \<open>
  C3, as the code has it. The handler rejects the amount with \<open>InvalidAmount\<close>, without
  calling \<^verbatim>\<open>setDoc\<close> and leaving the rest of its state as it was, exactly when the
  amount is \<open>NaN\<close> or at most zero (zero, a negative number, negative infinity); this
  holds for every snapshot, so the check comes before the comparison with the Tier-D
  exposure. Positive infinity is not rejected by this check.
\<close>

theorem invalid_amount_iff_NaN_or_not_positive:
  "(handleSimulateDivestment setDoc_resolves now dbData userId amount st
      = (st\<lparr>error := Some InvalidAmount\<rparr>, None))
   = (isNaN amount \<or> js_le amount (Fin 0))"
  by (auto simp: handleSimulateDivestment_def Let_def error_update_eq)

text \<open>
  C3 as stated fails: positive infinity is not a finite number, and on the documented
  snapshot the handler answers it with \<open>AmountExceedsExposure\<close>, not \<open>InvalidAmount\<close>.
\<close>

theorem infinite_amount_not_invalid:
  "handleSimulateDivestment True clock0 documented ''user-1'' PosInf idle
     = (idle\<lparr>error := Some (AmountExceedsExposure PosInf (Fin 52052.43))\<rparr>, None)
   \<and> error (fst (handleSimulateDivestment True clock0 documented ''user-1'' PosInf idle))
       \<noteq> Some InvalidAmount"
  by (simp add: doc_defs)

text \<open>
  C4, as the code has it. In the document of a successful divestment every bucket's
  percentage is its exposure divided by the sum of the exposures of that document, times
  100; and when that sum is a finite number other than zero, the percentages sum to 100
  (exactly, the finite numbers being exact here).
\<close>

theorem percentages_recomputed_against_new_total:
  assumes "handleSimulateDivestment True now dbData userId amount st = (st', Some doc)"
  shows "map percentage (riskData doc)
           = map (\<lambda>d. js_mul (js_div (exposure d) (recalculateTotal (riskData doc))) (Fin 100))
               (riskData doc)
       \<and> (\<forall>t. recalculateTotal (riskData doc) = Fin t \<and> t \<noteq> 0
              \<longrightarrow> js_sum (map percentage (riskData doc)) = Fin 100)"
proof -
  have doc: "doc = newDocument now dbData userId amount (tier_exposure ''D'' (riskData dbData))"
    by (rule handle_Some [OF assms])
  have p: "map percentage (riskData doc)
           = map (\<lambda>d. js_mul (js_div (exposure d) (recalculateTotal (riskData doc))) (Fin 100))
               (riskData doc)"
    unfolding doc by (rule percentage_newDocument)
  have "js_sum (map percentage (riskData doc)) = Fin 100"
    if t: "recalculateTotal (riskData doc) = Fin t" "t \<noteq> 0" for t
  proof -
    have "foldl js_add (Fin 0) (map exposure (riskData doc)) = Fin t"
      using t(1) by (simp add: recalculateTotal_exposures)
    from percentages_sum [OF this t(2)] have
      "js_sum (map (\<lambda>d. js_mul (js_div (exposure d) (Fin t)) (Fin 100)) (riskData doc)) = Fin 100"
      by (simp add: o_def)
    moreover have "map percentage (riskData doc)
        = map (\<lambda>d. js_mul (js_div (exposure d) (Fin t)) (Fin 100)) (riskData doc)"
      using p by (simp only: t(1))
    ultimately show ?thesis by (simp only:)
  qed
  with p show ?thesis by blast
qed

theorem percentages_recomputed_against_new_total_witness:
  "recalculateTotal (riskData (newDocument clock0 documented ''user-1'' (Fin 20000) (Fin 52052.43)))
     = Fin 258157.81
   \<and> js_sum (map percentage
        (riskData (newDocument clock0 documented ''user-1'' (Fin 20000) (Fin 52052.43))))
     = Fin 100"
proof -
  have t: "recalculateTotal
             (riskData (newDocument clock0 documented ''user-1'' (Fin 20000) (Fin 52052.43)))
           = Fin 258157.81"
    by (simp add: doc_defs)
  have nz: "(258157.81::real) \<noteq> 0" by simp
  from percentages_recomputed_against_new_total [OF documented_20000] t nz
  show ?thesis by blast
qed

text \<open>
  C4 as stated fails: divesting the whole of a portfolio held in Tier D alone succeeds
  and leaves a sum of exposures of zero, so every percentage is \<open>0 / 0 * 100\<close>, that is
  \<open>NaN\<close>, and their sum is within no tolerance of 100.
\<close>

theorem percentages_NaN_when_portfolio_emptied:
  "handleSimulateDivestment True clock0 tierD_only_portfolio ''user-1'' (Fin 5) idle
     = (idle\<lparr>error := None, isUpdating := False\<rparr>,
        Some (newDocument clock0 tierD_only_portfolio ''user-1'' (Fin 5) (Fin 5)))
   \<and> map percentage (riskData (newDocument clock0 tierD_only_portfolio ''user-1'' (Fin 5) (Fin 5)))
       = [NaN, NaN, NaN, NaN]
   \<and> (\<forall>eps. \<not> close_to eps 100
         (js_sum (map percentage
            (riskData (newDocument clock0 tierD_only_portfolio ''user-1'' (Fin 5) (Fin 5))))))"
  by (simp add: doc_defs tierD_only_portfolio_def idle_def close_to_def)

text \<open>
  C5, as the code has it. The document of a successful divestment keeps the
  \<^verbatim>\<open>totalExposure\<close> it had: the field is not recomputed. The sum of the exposures,
  against which the percentages are recomputed, does shrink: when the exposures of the
  snapshot sum to a finite \<open>T\<close>, the amount is a finite \<open>a\<close> and exactly one bucket's tier
  starts with \<open>D\<close>, the exposures of the new document sum to \<open>T - a\<close>.
\<close>

theorem totalExposure_kept_sum_shrinks:
  assumes "handleSimulateDivestment True now dbData userId amount st = (st', Some doc)"
  shows "totalExposure doc = totalExposure dbData
       \<and> (\<forall>T a. recalculateTotal (riskData dbData) = Fin T \<and> amount = Fin a
                 \<and> length (filter (\<lambda>d. startsWith (tier d) ''D'') (riskData dbData)) = 1
             \<longrightarrow> recalculateTotal (riskData doc) = Fin (T - a))"
proof -
  have doc: "doc = newDocument now dbData userId amount (tier_exposure ''D'' (riskData dbData))"
    by (rule handle_Some [OF assms])
  have "totalExposure doc = totalExposure dbData"
    unfolding doc by (simp add: newDocument_def Let_def)
  moreover have "recalculateTotal (riskData doc) = Fin (T - a)"
    if "recalculateTotal (riskData dbData) = Fin T" "amount = Fin a"
      "length (filter (\<lambda>d. startsWith (tier d) ''D'') (riskData dbData)) = 1" for T a
    unfolding doc that(2) by (rule total_after_divestment [OF that(1) that(3)])
  ultimately show ?thesis by blast
qed

theorem totalExposure_kept_sum_shrinks_witness:
  "totalExposure (newDocument clock0 documented ''user-1'' (Fin 20000) (Fin 52052.43))
     = Fin 278157.81
   \<and> recalculateTotal
       (riskData (newDocument clock0 documented ''user-1'' (Fin 20000) (Fin 52052.43)))
     = Fin 258157.81"
proof -
  have te: "totalExposure documented = Fin 278157.81"
    by (simp add: documented_def initialDocument_def TOTAL_EXPOSURE_def)
  from totalExposure_kept_sum_shrinks [OF documented_20000]
  have "totalExposure (newDocument clock0 documented ''user-1'' (Fin 20000) (Fin 52052.43))
          = totalExposure documented"
    and "recalculateTotal (riskData documented) = Fin 278157.81 \<and> Fin 20000 = Fin 20000
           \<and> length (filter (\<lambda>d. startsWith (tier d) ''D'') (riskData documented)) = 1
         \<longrightarrow> recalculateTotal
               (riskData (newDocument clock0 documented ''user-1'' (Fin 20000) (Fin 52052.43)))
             = Fin (278157.81 - 20000)"
    by blast+
  with te documented_total documented_one_tierD show ?thesis by simp
qed

text \<open>
  C5 as stated fails: after divesting 20000 from the documented snapshot the
  \<^verbatim>\<open>totalExposure\<close> field still holds 278157.81, while the exposures of the written
  document sum to 258157.81.
\<close>

theorem totalExposure_not_recomputed:
  "handleSimulateDivestment True clock0 documented ''user-1'' (Fin 20000) idle
     = (idle\<lparr>error := None, isUpdating := False\<rparr>,
        Some (newDocument clock0 documented ''user-1'' (Fin 20000) (Fin 52052.43)))
   \<and> totalExposure (newDocument clock0 documented ''user-1'' (Fin 20000) (Fin 52052.43))
       \<noteq> recalculateTotal
           (riskData (newDocument clock0 documented ''user-1'' (Fin 20000) (Fin 52052.43)))"
  by (simp add: doc_defs idle_def)

text \<open>
  C6. For every snapshot the metrics are: the current Tier-D exposure;
  \<open>progressMade = max(0, initialTierDTarget - current Tier-D exposure)\<close>;
  \<open>progressPercentage = min(100, progressMade / initialTierDTarget * 100)\<close> when
  \<open>initialTierDTarget > 0\<close> and \<open>0\<close> otherwise; \<open>highRiskExposure\<close>, the Tier-D exposure
  plus the Tier-C exposure; and \<open>totalLoanCount\<close>, the sum of the buckets' counts.
\<close>

theorem calculatedMetrics_formulas:
  "\<exists>m. calculatedMetrics (Some dbData) = Some m
     \<and> currentTierDExposure m = tier_exposure ''D'' (riskData dbData)
     \<and> progressMade m
         = Math_max (Fin 0)
             (js_sub (initialTierDTarget dbData) (tier_exposure ''D'' (riskData dbData)))
     \<and> progressPercentage m
         = (if js_gt (initialTierDTarget dbData) (Fin 0)
            then Math_min (Fin 100)
                   (js_mul (js_div (progressMade m) (initialTierDTarget dbData)) (Fin 100))
            else Fin 0)
     \<and> highRiskExposure m
         = js_add (tier_exposure ''D'' (riskData dbData)) (tier_exposure ''C'' (riskData dbData))
     \<and> totalLoanCount m = sum_counts (riskData dbData)"
proof -
  have "Math_min (Fin 100) (Fin 0) = Fin 0" by (simp add: Math_min_def)
  then show ?thesis
    by (simp add: calculatedMetrics_def Let_def tier_exposure_def sum_counts_def
        foldl_js_sum js_add_zero_left)
qed

text \<open>
  C7, as the code has it. From the documented starting snapshot, divesting 20000 succeeds
  and leaves a Tier-D exposure of 32052.43 and a progress percentage of
  \<open>2000000 / 52052.43\<close>, which is 38.42 to two decimals (38.4228 to four); divesting
  52052.43, the whole Tier-D exposure, succeeds and leaves a Tier-D exposure of 0 and a
  progress percentage of 100.
\<close>

theorem documented_divestments:
  "(\<exists>doc m. handleSimulateDivestment True now (initialDocument t) userId (Fin 20000) st
              = (st\<lparr>error := None, isUpdating := False\<rparr>, Some doc)
     \<and> tier_exposure ''D'' (riskData doc) = Fin 32052.43
     \<and> calculatedMetrics (Some doc) = Some m
     \<and> progressPercentage m = Fin (2000000 / 52052.43)
     \<and> close_to 0.005 38.42 (progressPercentage m)
     \<and> close_to 0.00005 38.4228 (progressPercentage m))
   \<and> (\<exists>doc m. handleSimulateDivestment True now (initialDocument t) userId (Fin 52052.43) st
              = (st\<lparr>error := None, isUpdating := False\<rparr>, Some doc)
     \<and> tier_exposure ''D'' (riskData doc) = Fin 0
     \<and> calculatedMetrics (Some doc) = Some m
     \<and> progressPercentage m = Fin 100)"
proof -
  have "\<exists>doc m. handleSimulateDivestment True now (initialDocument t) userId (Fin 20000) st
              = (st\<lparr>error := None, isUpdating := False\<rparr>, Some doc)
     \<and> tier_exposure ''D'' (riskData doc) = Fin 32052.43
     \<and> calculatedMetrics (Some doc) = Some m
     \<and> progressPercentage m = Fin (2000000 / 52052.43)
     \<and> close_to 0.005 38.42 (progressPercentage m)
     \<and> close_to 0.00005 38.4228 (progressPercentage m)"
    by (simp add: doc_defs calculatedMetrics_def Math_max_def Math_min_def close_to_def)
  moreover
  have "\<exists>doc m. handleSimulateDivestment True now (initialDocument t) userId (Fin 52052.43) st
              = (st\<lparr>error := None, isUpdating := False\<rparr>, Some doc)
     \<and> tier_exposure ''D'' (riskData doc) = Fin 0
     \<and> calculatedMetrics (Some doc) = Some m
     \<and> progressPercentage m = Fin 100"
    by (simp add: doc_defs calculatedMetrics_def Math_max_def Math_min_def)
  ultimately show ?thesis by (rule conjI)
qed

text \<open>
  C7 as stated fails in its one figure: after divesting 20000 the progress percentage is
  \<open>2000000 / 52052.43\<close>, which lies more than 0.005 below 38.43 and so is not 38.43 to
  two decimals.
\<close>

theorem progress_after_20000_is_not_38_43:
  "map_option progressPercentage
     (calculatedMetrics (snd (handleSimulateDivestment True clock0 documented ''user-1''
        (Fin 20000) idle)))
     = Some (Fin (2000000 / 52052.43))
   \<and> \<not> close_to 0.005 38.43 (Fin (2000000 / 52052.43))"
  by (simp add: doc_defs calculatedMetrics_def Math_max_def Math_min_def close_to_def)

text \<open>
  C8. What the handler passes to \<^verbatim>\<open>setDoc\<close> is determined by the snapshot, the amount,
  the actor and the clock: two calls that agree on these write the same document (or
  both write none), whatever the state of the component was and whether or not the write
  resolves.
\<close>

theorem written_document_deterministic:
  "snd (handleSimulateDivestment resolves1 now dbData userId amount st1)
     = snd (handleSimulateDivestment resolves2 now dbData userId amount st2)"
  by (simp add: handleSimulateDivestment_def Let_def)

text \<open>
  C9. The branch taken for a Tier-C bucket when the new Tier-D exposure is not positive
  returns a copy of the bucket with every field as it was, so the bucket update is the
  same function as the one that changes Tier-D buckets only, and so is the list it
  produces.
\<close>

theorem updateBucket_C_branch_is_noop:
  "updateBucket newTierDExposure newTierDPercentage
     = updateBucket_D_only newTierDExposure newTierDPercentage
   \<and> map (updateBucket newTierDExposure newTierDPercentage) rd
       = map (updateBucket_D_only newTierDExposure newTierDPercentage) rd"
proof -
  have "updateBucket newTierDExposure newTierDPercentage d
          = updateBucket_D_only newTierDExposure newTierDPercentage d" for d
    by (cases d) (simp add: updateBucket_def updateBucket_D_only_def)
  then have "updateBucket newTierDExposure newTierDPercentage
               = updateBucket_D_only newTierDExposure newTierDPercentage"
    by (rule ext)
  then show ?thesis by simp
qed

text \<open>
  C10. When no bucket's tier starts with \<open>D\<close>, the current Tier-D exposure is taken to
  be 0: every positive finite amount is rejected with \<open>AmountExceedsExposure\<close> and the
  ceiling 0, and \<^verbatim>\<open>setDoc\<close> is not called.
\<close>

theorem no_tierD_every_amount_exceeds:
  assumes "\<forall>d \<in> set (riskData dbData). \<not> startsWith (tier d) ''D''" and "0 < x"
  shows "handleSimulateDivestment setDoc_resolves now dbData userId (Fin x) st
           = (st\<lparr>error := Some (AmountExceedsExposure (Fin x) (Fin 0))\<rparr>, None)"
proof -
  from assms(1) have "find (\<lambda>d. startsWith (tier d) ''D'') (riskData dbData) = None"
    by (simp add: find_None_iff)
  then have z: "tier_exposure ''D'' (riskData dbData) = Fin 0" by (rule no_tierD_zero)
  show ?thesis
    using handle_exceeds [of "Fin x" dbData setDoc_resolves now userId st] assms(2) z
    by (simp add: js_gt_def)
qed

theorem no_tierD_every_amount_exceeds_witness:
  "handleSimulateDivestment True clock0 (documented\<lparr>riskData := take 3 (riskData documented)\<rparr>)
     ''user-1'' (Fin 20000) idle
     = (idle\<lparr>error := Some (AmountExceedsExposure (Fin 20000) (Fin 0))\<rparr>, None)"
proof -
  have h1: "\<forall>d \<in> set (riskData (documented\<lparr>riskData := take 3 (riskData documented)\<rparr>)).
              \<not> startsWith (tier d) ''D''"
    by (simp add: documented_def initialDocument_def initialRiskData_def MOCK_DATA_def
        startsWith_def)
  have h2: "(0::real) < 20000" by simp
  show ?thesis
    by (rule no_tierD_every_amount_exceeds [OF h1 h2])
qed

end
